theory Spec2Isabelle
  imports Main "HOL-Library.AList" "HOL-Library.Product_Lexorder"
begin

section \<open>Documents, enumerations and exceptions\<close>

text \<open>
  A parsed XML document (\<open>lxml\<close>) is a tree of elements. An element carries its
  qualified tag (namespace and local name), its XML attributes in document order, its
  text and its child elements. \<open>elem.get(key)\<close> reads an XML attribute and yields
  \<open>None\<close> when it is absent.
\<close>

datatype element =
  Element (ns: string) (localname: string) (attrib: "(string \<times> string) list")
    (elem_text: "string option") (children: "element list")

definition get :: "element \<Rightarrow> string \<Rightarrow> string option" where
  "get e key = map_of (attrib e) key"

definition NS_VCLOUD :: string where
  "NS_VCLOUD = ''http://www.vmware.com/vcloud/v1.5''"

text \<open>\<open>elem.findall('{namespace}name')\<close>: the direct children with that qualified tag.\<close>

definition findall :: "element \<Rightarrow> string \<Rightarrow> string \<Rightarrow> element list" where
  "findall e namespace name = filter (\<lambda>c. ns c = namespace \<and> localname c = name) (children e)"

text \<open>
  Attribute-style navigation of \<open>lxml.objectify\<close>: \<open>elem.name\<close> is the first child
  element called \<open>name\<close> in the namespace of \<open>elem\<close>; it raises \<open>AttributeError\<close>
  when there is none, so \<open>hasattr(elem, name)\<close> tells whether such a child exists.
  XML attributes are not seen by it.
\<close>

definition lookup_child :: "element \<Rightarrow> string \<Rightarrow> element option" where
  "lookup_child e name =
     (case findall e (ns e) name of [] \<Rightarrow> None | c # _ \<Rightarrow> Some c)"

definition hasattr :: "element \<Rightarrow> string \<Rightarrow> bool" where
  "hasattr e name = (lookup_child e name \<noteq> None)"

text \<open>
  A member of the enumeration \<open>RelationType\<close> is represented by its \<open>.value\<close>; the
  catalogue of members is a data table, of which the code read here names two.
\<close>

datatype RelationType = RelationType (rel_value: string)

definition NEXT_PAGE :: RelationType where
  "NEXT_PAGE = RelationType ''nextPage''"

definition DOWN :: RelationType where
  "DOWN = RelationType ''down''"

datatype TaskStatus = QUEUED | PRE_RUNNING | RUNNING | SUCCESS | ERROR | CANCELED | ABORTED

fun status_value :: "TaskStatus \<Rightarrow> string" where
  "status_value QUEUED = ''queued''"
| "status_value PRE_RUNNING = ''preRunning''"
| "status_value RUNNING = ''running''"
| "status_value SUCCESS = ''success''"
| "status_value ERROR = ''error''"
| "status_value CANCELED = ''canceled''"
| "status_value ABORTED = ''aborted''"

text \<open>
  The classes \<open>_response_code_to_exception\<close> raises, each built from the status code,
  the request id and the parsed body.
\<close>

datatype response_class =
    BadRequestException | UnauthorizedException | AccessForbiddenException
  | NotFoundException | MethodNotAllowedException | NotAcceptableException
  | RequestTimeoutException | ConflictException | UnsupportedMediaTypeException
  | InvalidContentLengthException | InternalServerException | UnknownApiException

text \<open>
  Every exception the modelled code can end with. \<open>TransportError\<close> stands for an
  exception of the underlying connection, which the client passes up unchanged.
\<close>

datatype exc =
    ResponseException response_class int "string option"
  | VcdException string
  | VcdTaskException string element
  | TaskTimeoutException string
  | MissingLinkException "string option" RelationType "string option"
  | MultipleLinksException "string option" RelationType "string option"
  | OperationNotSupportedException string
  | TypeError
  | ValueError
  | AttributeError
  | UnboundLocalError
  | TransportError string

text \<open>\<open>str.lower\<close> on the ASCII letters, which is all a task status is made of.\<close>

definition lower_char :: "char \<Rightarrow> char" where
  "lower_char c =
     (if 65 \<le> (of_char c :: nat) \<and> (of_char c :: nat) \<le> 90
      then char_of (of_char c + 32 :: nat) else c)"

definition lower :: "string \<Rightarrow> string" where
  "lower s = map lower_char s"

section \<open>Link resolver\<close>

text \<open>The class \<open>Link\<close>: the attributes of a \<open>Link\<close> element.\<close>

record Link =
  rel :: "string option"
  media_type :: "string option"
  href :: "string option"
  name :: "string option"

definition mk_Link :: "element \<Rightarrow> Link" where
  "mk_Link link_elem =
     \<lparr> rel = get link_elem ''rel'',
       media_type = get link_elem ''type'',
       href = get link_elem ''href'',
       name = (if ''name'' \<in> fst ` set (attrib link_elem) then get link_elem ''name'' else None) \<rparr>"

text \<open>
  The loop of \<open>get_links\<close> over the \<open>Link\<close> children, with the list \<open>links\<close> built
  so far; \<open>continue\<close> and a failed test both go on with the next child.
\<close>

fun get_links_loop ::
  "element list \<Rightarrow> RelationType \<Rightarrow> string option \<Rightarrow> string option \<Rightarrow> Link list \<Rightarrow> Link list" where
  "get_links_loop [] rel_arg media_type_arg name_arg links = links"
| "get_links_loop (link # rest) rel_arg media_type_arg name_arg links =
     (let link_rel = get link ''rel'';
          link_media_type = get link ''type'';
          link_name = get link ''name''
      in if name_arg \<noteq> None \<and> link_name \<noteq> name_arg
         then get_links_loop rest rel_arg media_type_arg name_arg links
         else if link_rel = Some (rel_value rel_arg)
         then (if media_type_arg = None \<and> link_media_type = None
               then get_links_loop rest rel_arg media_type_arg name_arg (links @ [mk_Link link])
               else if media_type_arg \<noteq> None \<and> link_media_type = media_type_arg
               then get_links_loop rest rel_arg media_type_arg name_arg (links @ [mk_Link link])
               else get_links_loop rest rel_arg media_type_arg name_arg links)
         else get_links_loop rest rel_arg media_type_arg name_arg links)"

definition get_links ::
  "element \<Rightarrow> RelationType \<Rightarrow> string option \<Rightarrow> string option \<Rightarrow> Link list" where
  "get_links resource rel_arg media_type_arg name_arg =
     get_links_loop (findall resource NS_VCLOUD ''Link'') rel_arg media_type_arg name_arg []"

definition find_link ::
  "element \<Rightarrow> RelationType \<Rightarrow> string option \<Rightarrow> bool \<Rightarrow> string option \<Rightarrow> exc + Link option" where
  "find_link resource rel_arg media_type_arg fail_if_absent name_arg =
     (let links = get_links resource rel_arg media_type_arg name_arg;
          num_links = length links
      in if num_links = 0
         then (if fail_if_absent
               then Inl (MissingLinkException (get resource ''href'') rel_arg media_type_arg)
               else Inr None)
         else if num_links = 1 then Inr (Some (links ! 0))
         else Inl (MultipleLinksException (get resource ''href'') rel_arg media_type_arg))"

text \<open>
  The matching rule in the words of the specification: the relation equals the requested
  one, and either the content-type filter is absent and the link has no content type, or
  the filter is present and equals the link's content type; a name filter, when given,
  must equal the link's name.
\<close>

definition link_matches ::
  "RelationType \<Rightarrow> string option \<Rightarrow> string option \<Rightarrow> element \<Rightarrow> bool" where
  "link_matches rel_arg media_type_arg name_arg link =
     (get link ''rel'' = Some (rel_value rel_arg)
      \<and> ((media_type_arg = None \<and> get link ''type'' = None)
         \<or> (media_type_arg \<noteq> None \<and> get link ''type'' = media_type_arg))
      \<and> (name_arg = None \<or> get link ''name'' = name_arg))"

section \<open>Request pipeline: header redaction\<close>

text \<open>
  A Python \<open>dict\<close> of headers is an association list in insertion order with distinct
  keys. The assignment \<open>d[key] = value\<close> replaces the value of a key already present and
  appends a new key at the end, which is what \<open>AList.update\<close> does.
\<close>

type_synonym headers = "(string \<times> string) list"

definition HEADER_AUTHORIZATION_NAME :: string where
  "HEADER_AUTHORIZATION_NAME = ''Authorization''"

definition HEADER_X_VCLOUD_AUTH_NAME :: string where
  "HEADER_X_VCLOUD_AUTH_NAME = ''x-vcloud-authorization''"

definition HEADER_X_VMWARE_CLOUD_ACCESS_TOKEN_NAME :: string where
  "HEADER_X_VMWARE_CLOUD_ACCESS_TOKEN_NAME = ''x-vmware-vcloud-access-token''"

definition HEADERS_TO_REDACT :: "string list" where
  "HEADERS_TO_REDACT =
     [HEADER_AUTHORIZATION_NAME, HEADER_X_VCLOUD_AUTH_NAME,
      HEADER_X_VMWARE_CLOUD_ACCESS_TOKEN_NAME]"

definition REDACTED :: string where
  "REDACTED = ''[REDACTED]''"

text \<open>One iteration of the loop of \<open>_redact_headers\<close>.\<close>

definition redact_step :: "string \<times> string \<Rightarrow> headers \<Rightarrow> headers" where
  "redact_step kv redacted_headers =
     (if \<not> fst kv \<in> set HEADERS_TO_REDACT
      then AList.update (fst kv) (snd kv) redacted_headers
      else AList.update (fst kv) REDACTED redacted_headers)"

definition redact_headers :: "headers \<Rightarrow> headers" where
  "redact_headers hs = fold redact_step hs []"

text \<open>
  The header lines of \<open>_log_request_sent\<close>: nothing is logged unless requests are
  logged, and the header dump is made only when header logging is on.
\<close>

datatype log_line = LogUri string string | LogHeaders headers | LogBody string

definition log_request_sent ::
  "bool \<Rightarrow> bool \<Rightarrow> bool \<Rightarrow> string \<Rightarrow> string \<Rightarrow> headers \<Rightarrow> string option \<Rightarrow> log_line list" where
  "log_request_sent log_requests log_headers log_bodies method uri hs request_body =
     (if \<not> log_requests then []
      else [LogUri method uri]
        @ (if log_headers then [LogHeaders (redact_headers hs)] else [])
        @ (case request_body of
             None \<Rightarrow> []
           | Some body \<Rightarrow> if log_bodies then [LogBody body] else []))"

section \<open>Typed query engine\<close>

text \<open>
  What the query code takes from outside this file: the outcome of the comparison
  \<open>float(client.get_api_version()) < float(ApiVersion.VERSION_35.value)\<close>, the library
  functions \<open>urllib.parse.quote\<close> and \<open>int\<close> (on a string; \<open>None\<close> stands for
  \<open>ValueError\<close>), the client's \<open>get_resource\<close> (which raises, or returns a document,
  or returns \<open>None\<close> for a response without content) and the cached query catalogue
  \<open>_query_list_map\<close>, keyed by content type and query type name.
\<close>

record query_env =
  is_below_v35 :: bool
  quote :: "string \<Rightarrow> string"
  int_of_str :: "string \<Rightarrow> int option"
  get_resource :: "string \<Rightarrow> exc + element option"
  query_list_map :: "string \<times> string \<Rightarrow> string option"

text \<open>The object state \<open>_AbstractQuery.__init__\<close> and \<open>_TypedQuery.__init__\<close> set up.\<close>

record query =
  q_query_type_name :: string
  q_query_media_type :: string
  q_page_size :: "int option"
  q_include_links :: bool
  q_query_all_pages :: bool
  q_page :: int
  q_filter :: "string option"
  q_sort_desc :: "string option"
  q_sort_asc :: "string option"
  q_fields :: "string option"

text \<open>\<open>str(n)\<close> for an integer: its decimal digits, with a minus sign when negative.\<close>

definition digit_char :: "nat \<Rightarrow> char" where
  "digit_char d = ''0123456789'' ! d"

function str_of_nat :: "nat \<Rightarrow> string" where
  "str_of_nat n = (if n < 10 then [digit_char n] else str_of_nat (n div 10) @ [digit_char (n mod 10)])"
  by pat_completeness auto
termination
  by (relation "measure id") auto

definition str_of_int :: "int \<Rightarrow> string" where
  "str_of_int i = (if i < 0 then CHR ''-'' # str_of_nat (nat (- i)) else str_of_nat (nat i))"

text \<open>
  \<open>s.replace(old, new)\<close> for a non-empty \<open>old\<close> (the four uses below pass literals):
  every non-overlapping occurrence, scanning from the left.
\<close>

fun replace :: "string \<Rightarrow> string \<Rightarrow> string \<Rightarrow> string" where
  "replace old new [] = []"
| "replace old new (c # cs) =
     (if old \<noteq> [] \<and> take (length old) (c # cs) = old
      then new @ replace old new (drop (length old - 1) cs)
      else c # replace old new cs)"

text \<open>Truth value of an optional string: \<open>None\<close> and the empty string are false.\<close>

definition truthy :: "string option \<Rightarrow> bool" where
  "truthy s = (s \<noteq> None \<and> s \<noteq> Some [])"

definition escape_special_characters :: "string option \<Rightarrow> string option" where
  "escape_special_characters single_encoded_value_string =
     (if truthy single_encoded_value_string
      then map_option
             (\<lambda>val. replace ''%3B'' ''%5C%3B''
                      (replace ''%2C'' ''%5C%2C''
                        (replace ''%29'' ''%5C%29''
                          (replace ''%28'' ''%5C%28'' val))))
             single_encoded_value_string
      else single_encoded_value_string)"

text \<open>
  \<open>__init__\<close>: without a true \<open>page\<close> (that is \<open>None\<close> or \<open>0\<close>) the query stays in
  all-pages mode with page number 1.
\<close>

definition init_query ::
  "query_env \<Rightarrow> string \<Rightarrow> string \<Rightarrow> int option \<Rightarrow> int option \<Rightarrow> bool \<Rightarrow> string option \<Rightarrow>
   (string \<times> string) option \<Rightarrow> string option \<Rightarrow> string option \<Rightarrow> string option \<Rightarrow> query" where
  "init_query env query_type_name query_media_type page page_size include_links qfilter
     equality_filter sort_asc sort_desc fields_arg =
     (let page_true = (case page of None \<Rightarrow> False | Some p \<Rightarrow> p \<noteq> 0);
          filter0 = (if is_below_v35 env then qfilter else escape_special_characters qfilter);
          filter1 =
            (case equality_filter of
               None \<Rightarrow> filter0
             | Some (k, v) \<Rightarrow>
                 Some ((if truthy filter0 then the filter0 @ '';'' else '''')
                       @ k @ ''==''
                       @ (if is_below_v35 env then v
                          else the (escape_special_characters (Some (quote env v))))))
      in \<lparr> q_query_type_name = query_type_name,
           q_query_media_type = query_media_type,
           q_page_size = page_size,
           q_include_links = include_links,
           q_query_all_pages = (\<not> page_true),
           q_page = (if page_true then the page else 1),
           q_filter = filter1,
           q_sort_desc = sort_desc,
           q_sort_asc = sort_asc,
           q_fields = fields_arg \<rparr>)"

definition find_query_uri :: "query_env \<Rightarrow> query \<Rightarrow> string option" where
  "find_query_uri env q = query_list_map env (q_query_media_type q, q_query_type_name q)"

definition build_query_uri ::
  "query_env \<Rightarrow> query \<Rightarrow> string \<Rightarrow> int \<Rightarrow> int option \<Rightarrow> string option \<Rightarrow> bool \<Rightarrow>
   string option \<Rightarrow> string" where
  "build_query_uri env q base_query_href page page_size qfilter include_links fields_arg =
     base_query_href @ ''&page='' @ str_of_int page
     @ (case page_size of None \<Rightarrow> [] | Some s \<Rightarrow> ''&pageSize='' @ str_of_int s)
     @ (if truthy qfilter
        then (if is_below_v35 env
              then ''&filterEncoded=true&filter='' @ quote env (the qfilter)
              else ''&filter='' @ the qfilter)
        else [])
     @ (case fields_arg of None \<Rightarrow> [] | Some f \<Rightarrow> ''&fields='' @ f)
     @ (case q_sort_asc q of None \<Rightarrow> [] | Some a \<Rightarrow> ''&sortAsc='' @ a)
     @ (case q_sort_desc q of None \<Rightarrow> [] | Some d \<Rightarrow> ''&sortDesc='' @ d)"

text \<open>
  The dictionary a single-page \<open>execute\<close> returns, in insertion order. The key
  \<open>nextPageUri\<close> is always there (with value \<open>None\<close> when there is no next page); the
  key \<open>previousPageUri\<close> is there only when it was assigned.
\<close>

datatype pyval = PyNone | PyInt int | PyStr string | PyList "element list"

type_synonym pydict = "(string \<times> pyval) list"

text \<open>
  \<open>execute\<close> returns the generator made from the first page (fetched before the
  generator starts) in all-pages mode, and the page dictionary otherwise.
\<close>

datatype exec_result = Generator "element option" | PageResult pydict

definition single_page :: "query_env \<Rightarrow> query \<Rightarrow> string \<Rightarrow> element \<Rightarrow> exc + exec_result" where
  "single_page env q query_href query_results =
     (case get query_results ''total'' of
        None \<Rightarrow> Inl TypeError
      | Some total_str \<Rightarrow>
         (case int_of_str env total_str of
            None \<Rightarrow> Inl ValueError
          | Some resultTotal \<Rightarrow>
             (let result1 = AList.update ''nextPageUri'' PyNone
                              (AList.update ''resultTotal'' (PyInt resultTotal) [])
              in case q_page_size q of
                   None \<Rightarrow> Inl TypeError
                 | Some page_size \<Rightarrow>
                    (let result2 =
                           (if q_page q * page_size < resultTotal
                            then AList.update ''nextPageUri''
                                   (PyStr (build_query_uri env q query_href (q_page q + 1)
                                      (q_page_size q) (q_filter q) (q_include_links q) (q_fields q)))
                                   result1
                            else result1);
                         result3 =
                           (if q_page q > 1
                            then AList.update ''previousPageUri''
                                   (PyStr (build_query_uri env q query_href (q_page q - 1)
                                      (q_page_size q) (q_filter q) (q_include_links q) (q_fields q)))
                                   result2
                            else result2);
                         resources = filter (\<lambda>r. localname r \<noteq> ''Link'') (children query_results)
                     in Inr (PageResult (AList.update ''values'' (PyList resources) result3))))))"

definition execute :: "query_env \<Rightarrow> query \<Rightarrow> exc + exec_result" where
  "execute env q =
     (case find_query_uri env q of
        None \<Rightarrow> Inl (OperationNotSupportedException ''Unable to execute query.'')
      | Some query_href \<Rightarrow>
         (let query_uri = build_query_uri env q query_href (q_page q) (q_page_size q)
                            (q_filter q) (q_include_links q) (q_fields q)
          in if q_query_all_pages q
             then (case get_resource env query_uri of
                     Inl e \<Rightarrow> Inl e
                   | Inr first_page \<Rightarrow> Inr (Generator first_page))
             else (case get_resource env query_uri of
                     Inl e \<Rightarrow> Inl e
                   | Inr None \<Rightarrow> Inl AttributeError
                   | Inr (Some query_results) \<Rightarrow> single_page env q query_href query_results)))"

section \<open>All-pages mode: the generator\<close>

text \<open>
  The generator \<open>_iterator\<close> is modelled by the sequence of things it does, in the order
  it does them: it yields a record, or it fetches a page. A consumer that stops after
  some record has caused exactly the events up to that \<open>Yield\<close>; that is the laziness
  of the generator.
\<close>

datatype event = Yield element | Fetch string

text \<open>
  The \<open>for\<close> loop over the children of one page: the records it yields, in order, and
  the value of \<open>next_page_uri\<close> when the loop ends.
\<close>

fun page_loop :: "element list \<Rightarrow> string option \<Rightarrow> element list \<times> string option" where
  "page_loop [] next_page_uri = ([], next_page_uri)"
| "page_loop (r # rs) next_page_uri =
     (if localname r = ''Link''
      then (if get r ''rel'' = Some (rel_value NEXT_PAGE)
            then page_loop rs (get r ''href'')
            else page_loop rs next_page_uri)
      else (case page_loop rs next_page_uri of (ys, n) \<Rightarrow> (r # ys, n)))"

text \<open>
  The \<open>while True\<close> loop. The first argument bounds the number of pages gone through;
  \<open>None\<close> says that the bound was reached before the generator ended. The result is the
  events and how the generator ended: exhausted (\<open>None\<close>) or with an exception. A page
  that is \<open>None\<close> (a response without content) has no \<open>iterchildren\<close>.
\<close>

fun iterator ::
  "nat \<Rightarrow> (string \<Rightarrow> exc + element option) \<Rightarrow> element option \<Rightarrow> (event list \<times> exc option) option" where
  "iterator 0 fetch query_results = None"
| "iterator (Suc n) fetch None = Some ([], Some AttributeError)"
| "iterator (Suc n) fetch (Some query_results) =
     (case page_loop (children query_results) None of
        (ys, None) \<Rightarrow> Some (map Yield ys, None)
      | (ys, Some next_page_uri) \<Rightarrow>
          (case fetch next_page_uri of
             Inl e \<Rightarrow> Some (map Yield ys @ [Fetch next_page_uri], Some e)
           | Inr next_results \<Rightarrow>
               map_option (\<lambda>(evs, ending). (map Yield ys @ Fetch next_page_uri # evs, ending))
                 (iterator n fetch next_results)))"

text \<open>
  In the words of the specification: the records of a page are its children other than
  link elements; a page has a next-page link when a link child has the reserved relation.
  The target of a page is the \<open>href\<close> of its last next-page link.
\<close>

definition records :: "element \<Rightarrow> element list" where
  "records page = filter (\<lambda>c. localname c \<noteq> ''Link'') (children page)"

definition is_next_link :: "element \<Rightarrow> bool" where
  "is_next_link c = (localname c = ''Link'' \<and> get c ''rel'' = Some (rel_value NEXT_PAGE))"

definition has_next_link :: "element \<Rightarrow> bool" where
  "has_next_link page = (filter is_next_link (children page) \<noteq> [])"

definition next_link_href :: "element \<Rightarrow> string option" where
  "next_link_href page =
     (case rev (filter is_next_link (children page)) of
        [] \<Rightarrow> None
      | l # _ \<Rightarrow> get l ''href'')"

text \<open>
  A paginated result set served by \<open>fetch\<close>: a non-empty list of pages in which every
  page but the last has a next-page target that \<open>fetch\<close> answers with the following
  page, and the last page has none.
\<close>

fun result_set :: "(string \<Rightarrow> exc + element option) \<Rightarrow> element list \<Rightarrow> bool" where
  "result_set fetch [] = False"
| "result_set fetch [p] = (next_link_href p = None)"
| "result_set fetch (p # q # ps) =
     ((case next_link_href p of None \<Rightarrow> False | Some u \<Rightarrow> fetch u = Inr (Some q))
      \<and> result_set fetch (q # ps))"

text \<open>The events the specification expects of a result set: page by page, the records
  of the page and then the fetch of its target.\<close>

definition page_events :: "element \<Rightarrow> event list" where
  "page_events page =
     map Yield (records page)
     @ (case next_link_href page of None \<Rightarrow> [] | Some u \<Rightarrow> [Fetch u])"

text \<open>The records yielded and the pages fetched in a sequence of events.\<close>

fun yielded :: "event list \<Rightarrow> element list" where
  "yielded [] = []"
| "yielded (Yield r # evs) = r # yielded evs"
| "yielded (Fetch u # evs) = yielded evs"

fun fetched :: "event list \<Rightarrow> string list" where
  "fetched [] = []"
| "fetched (Yield r # evs) = fetched evs"
| "fetched (Fetch u # evs) = u # fetched evs"

section \<open>Request pipeline and session\<close>

text \<open>
  A response as the client reads it: the status code, the request id header, and what
  \<open>_objectify_response\<close> makes of the body (an exception of the parser, \<open>None\<close> for
  an empty body, or the document).
\<close>

record response =
  status_code :: int
  request_id :: "string option"
  objectified :: "exc + element option"

definition response_code_to_exception :: "int \<Rightarrow> string option \<Rightarrow> exc" where
  "response_code_to_exception sc rid =
     (if sc = 400 then ResponseException BadRequestException sc rid
      else if sc = 401 then ResponseException UnauthorizedException sc rid
      else if sc = 403 then ResponseException AccessForbiddenException sc rid
      else if sc = 404 then ResponseException NotFoundException sc rid
      else if sc = 405 then ResponseException MethodNotAllowedException sc rid
      else if sc = 406 then ResponseException NotAcceptableException sc rid
      else if sc = 408 then ResponseException RequestTimeoutException sc rid
      else if sc = 409 then ResponseException ConflictException sc rid
      else if sc = 415 then ResponseException UnsupportedMediaTypeException sc rid
      else if sc = 416 then ResponseException InvalidContentLengthException sc rid
      else if sc = 500 then ResponseException InternalServerException sc rid
      else ResponseException UnknownApiException sc rid)"

text \<open>
  What the client does to the outside: it sends a request through its connection, or
  closes the connection. The server answers a request, given everything done so far,
  with a response or with an exception of the connection.
\<close>

datatype net_event = Sent string string | Closed

type_synonym server = "net_event list \<Rightarrow> string \<Rightarrow> string \<Rightarrow> exc + response"

text \<open>
  The fields of \<open>Client\<close> that \<open>__init__\<close> sets, with the events so far. The connection
  \<open>_session\<close> (a \<open>requests.Session\<close>) is represented by its headers; such an object is
  always true in a condition, so \<open>if self._session\<close> asks whether it is not \<open>None\<close>.
\<close>

record client =
  c_api_base_uri :: string
  c_api_version :: "string option"
  c_session_endpoints :: "(string \<times> string) list option"
  c_session :: "headers option"
  c_vcloud_session :: "element option"
  c_vcloud_auth_token :: "string option"
  c_vcloud_access_token :: "string option"
  c_query_list_map :: "((string \<times> string) \<times> string) list option"
  c_is_sysadmin :: bool
  c_events :: "net_event list"

text \<open>\<open>__init__\<close>: no connection, no session document, no tokens, no cached maps.\<close>

definition init_client :: "string \<Rightarrow> string option \<Rightarrow> client" where
  "init_client base_uri version =
     \<lparr> c_api_base_uri = base_uri,
       c_api_version = version,
       c_session_endpoints = None,
       c_session = None,
       c_vcloud_session = None,
       c_vcloud_auth_token = None,
       c_vcloud_access_token = None,
       c_query_list_map = None,
       c_is_sysadmin = False,
       c_events = [] \<rparr>"




section \<open>Upload of a fragment\<close>

definition UPLOAD_FRAGMENT_MAX_RETRIES :: nat where
  "UPLOAD_FRAGMENT_MAX_RETRIES = 5"

text \<open>
  \<open>except VcdResponseException\<close> catches the instances of that class. The classes are
  declared in the module \<open>pyvcloud.vcd.exceptions\<close>, which is not among the sources
  read here, so which of the classes raised by \<open>_response_code_to_exception\<close> derive
  from \<open>VcdResponseException\<close> is a parameter \<open>derives\<close>. The built-in exceptions and
  those of the connection are not instances.
\<close>

definition isinstance_VcdResponseException :: "(response_class \<Rightarrow> bool) \<Rightarrow> exc \<Rightarrow> bool" where
  "isinstance_VcdResponseException derives e =
     (case e of ResponseException k sc rid \<Rightarrow> derives k | _ \<Rightarrow> False)"

text \<open>
  The body of the \<open>try\<close>: the \<open>PUT\<close> through \<open>self._session\<close> (without a connection
  the attribute \<open>put\<close> of \<open>None\<close> does not exist), and the exception mapped from any
  status code other than 200. Contents and range only fill the headers of the request.
\<close>

definition try_put :: "server \<Rightarrow> client \<Rightarrow> string \<Rightarrow> (exc + response) \<times> client" where
  "try_put srv c uri =
     (case c_session c of
        None \<Rightarrow> (Inl AttributeError, c)
      | Some s \<Rightarrow>
          (let c1 = c\<lparr>c_events := c_events c @ [Sent ''PUT'' uri]\<rparr>
           in case srv (c_events c) ''PUT'' uri of
                Inl e \<Rightarrow> (Inl e, c1)
              | Inr resp \<Rightarrow>
                  (if status_code resp \<noteq> 200
                   then (Inl (response_code_to_exception (status_code resp) None), c1)
                   else (Inr resp, c1))))"

text \<open>
  The loop \<open>for attempt in range(1, _UPLOAD_FRAGMENT_MAX_RETRIES + 1)\<close>, from the given
  attempt on. A function that falls off the end of the loop returns \<open>None\<close>.
\<close>

function upload_loop ::
  "(response_class \<Rightarrow> bool) \<Rightarrow> server \<Rightarrow> string \<Rightarrow> nat \<Rightarrow> client \<Rightarrow> (exc + response option) \<times> client" where
  "upload_loop derives srv uri attempt c =
     (if attempt \<ge> UPLOAD_FRAGMENT_MAX_RETRIES + 1 then (Inr None, c)
      else (case try_put srv c uri of
              (Inr resp, c1) \<Rightarrow> (Inr (Some resp), c1)
            | (Inl e, c1) \<Rightarrow>
                (if isinstance_VcdResponseException derives e
                 then (if attempt < UPLOAD_FRAGMENT_MAX_RETRIES
                       then upload_loop derives srv uri (attempt + 1) c1
                       else (Inl e, c1))
                 else (Inl e, c1))))"
  by pat_completeness auto
termination
  by (relation "measure (\<lambda>(derives, srv, uri, attempt, c). UPLOAD_FRAGMENT_MAX_RETRIES + 1 - attempt)")
     auto

declare upload_loop.simps [simp del]

definition upload_fragment ::
  "(response_class \<Rightarrow> bool) \<Rightarrow> server \<Rightarrow> client \<Rightarrow> string \<Rightarrow> (exc + response option) \<times> client" where
  "upload_fragment derives srv c uri = upload_loop derives srv uri 1 c"

text \<open>The client after \<open>k\<close> more \<open>PUT\<close> requests to \<open>uri\<close>.\<close>

definition after_puts :: "client \<Rightarrow> string \<Rightarrow> nat \<Rightarrow> client" where
  "after_puts c uri k = c\<lparr>c_events := c_events c @ replicate k (Sent ''PUT'' uri)\<rparr>"

section \<open>Task monitor\<close>

text \<open>
  What \<open>wait_for_status\<close> meets outside: the answer of the \<open>i\<close>-th call of
  \<open>get_resource\<close> on the task's \<open>href\<close>, and the \<open>i\<close>-th reading of
  \<open>datetime.now()\<close>. A \<open>datetime\<close> and a \<open>timedelta\<close> count whole microseconds, so
  readings, the timeout and the poll interval are integers of microseconds.
\<close>

record task_env =
  fetch_task :: "nat \<Rightarrow> string option \<Rightarrow> exc + element option"
  now :: "nat \<Rightarrow> int"

text \<open>
  The argument \<open>fail_on_statuses\<close>: \<open>None\<close>, a single \<open>TaskStatus\<close>, or a list.
\<close>

datatype fail_on = FailNone | FailStatus TaskStatus | FailList "TaskStatus list"

text \<open>
  A callback either returns or raises; \<open>run_callback\<close> gives the exception, if any.
\<close>

definition run_callback :: "(element option \<Rightarrow> exc option) option \<Rightarrow> element option \<Rightarrow> exc option" where
  "run_callback callback task = (case callback of None \<Rightarrow> None | Some f \<Rightarrow> f task)"

text \<open>
  The loop \<open>while True\<close> from its \<open>i\<close>-th round on. The first argument bounds the
  number of rounds; \<open>None\<close> says that the loop is still running when the bound is
  reached. Round \<open>i\<close> makes the \<open>i\<close>-th fetch and, when no status matched, the reading
  \<open>i + 1\<close> of the clock (reading 0 is \<open>start_time\<close>). The test is the source's:
  \<open>start_time - datetime.now() > timedelta(seconds=timeout)\<close>. \<open>time.sleep\<close> raises
  \<open>ValueError\<close> for a negative interval.
\<close>

fun wait_loop ::
  "nat \<Rightarrow> task_env \<Rightarrow> string option \<Rightarrow> int \<Rightarrow> int \<Rightarrow> TaskStatus list \<Rightarrow> TaskStatus list \<Rightarrow>
   (element option \<Rightarrow> exc option) option \<Rightarrow> int \<Rightarrow> nat \<Rightarrow> (exc + element) option" where
  "wait_loop 0 env task_href timeout poll_frequency fail_on_statuses
     expected_target_statuses callback start_time i = None"
| "wait_loop (Suc n) env task_href timeout poll_frequency fail_on_statuses
     expected_target_statuses callback start_time i =
     (case fetch_task env i task_href of
        Inl e \<Rightarrow> Some (Inl e)
      | Inr task \<Rightarrow>
         (case run_callback callback task of
            Some e \<Rightarrow> Some (Inl e)
          | None \<Rightarrow>
             (case task of
                None \<Rightarrow> Some (Inl AttributeError)
              | Some t \<Rightarrow>
                 (case get t ''status'' of
                    None \<Rightarrow> Some (Inl AttributeError)
                  | Some st \<Rightarrow>
                     (let task_status = lower st
                      in if \<exists>status \<in> set expected_target_statuses.
                              task_status = lower (status_value status)
                         then Some (Inr t)
                         else if \<exists>status \<in> set fail_on_statuses.
                              task_status = lower (status_value status)
                         then (case lookup_child t ''Error'' of
                                 None \<Rightarrow> Some (Inl AttributeError)
                               | Some err \<Rightarrow> Some (Inl (VcdTaskException task_status err)))
                         else if start_time - now env (Suc i) > timeout
                         then Some (Inl (TaskTimeoutException ''Task timeout''))
                         else if poll_frequency < 0 then Some (Inl ValueError)
                         else wait_loop n env task_href timeout poll_frequency fail_on_statuses
                                expected_target_statuses callback start_time (Suc i))))))"

text \<open>
  \<open>wait_for_status\<close>. For a single \<open>TaskStatus\<close> the statement
  \<open>_fail_on_statuses[fail_on_statuses]\<close> reads the local variable \<open>_fail_on_statuses\<close>
  before anything was assigned to it, which raises \<open>UnboundLocalError\<close>.
\<close>

definition wait_for_status ::
  "nat \<Rightarrow> task_env \<Rightarrow> element \<Rightarrow> int \<Rightarrow> int \<Rightarrow> fail_on \<Rightarrow> TaskStatus list \<Rightarrow>
   (element option \<Rightarrow> exc option) option \<Rightarrow> (exc + element) option" where
  "wait_for_status n env task timeout poll_frequency fail_on_statuses
     expected_target_statuses callback =
     (case fail_on_statuses of
        FailStatus s \<Rightarrow> Some (Inl UnboundLocalError)
      | FailNone \<Rightarrow>
          wait_loop n env (get task ''href'') timeout poll_frequency []
            expected_target_statuses callback (now env 0) 0
      | FailList l \<Rightarrow>
          wait_loop n env (get task ''href'') timeout poll_frequency l
            expected_target_statuses callback (now env 0) 0)"

definition DEFAULT_POLL_SEC :: int where
  "DEFAULT_POLL_SEC = 5 * 1000000"

definition DEFAULT_TIMEOUT_SEC :: int where
  "DEFAULT_TIMEOUT_SEC = 600 * 1000000"

definition wait_for_success ::
  "nat \<Rightarrow> task_env \<Rightarrow> element \<Rightarrow> int \<Rightarrow> int \<Rightarrow>
   (element option \<Rightarrow> exc option) option \<Rightarrow> (exc + element) option" where
  "wait_for_success n env task timeout poll_frequency callback =
     wait_for_status n env task timeout poll_frequency (FailList [ERROR]) [SUCCESS] callback"

section \<open>Version negotiation\<close>

definition API_CURRENT_VERSIONS :: "string list" where
  "API_CURRENT_VERSIONS =
     [''29.0'', ''30.0'', ''31.0'', ''32.0'', ''33.0'', ''34.0'', ''35.0'', ''36.0'']"

text \<open>
  \<open>distutils.version.StrictVersion\<close>, the sort key. A version string is
  \<open>major.minor\<close>, optionally followed by \<open>.patch\<close> and by a pre-release tag \<open>a\<close> or
  \<open>b\<close> with a number; all numbers are ASCII digits, and one newline may end the string.
  Versions compare by the numbers (a missing patch is 0), and for equal numbers a
  pre-release comes before the release, \<open>a\<close> before \<open>b\<close>, then by the tag's number.
  The key is the pair of the numbers and the rank of the pre-release, compared
  lexicographically.
\<close>

definition is_digit :: "char \<Rightarrow> bool" where
  "is_digit c = (48 \<le> (of_char c :: nat) \<and> (of_char c :: nat) \<le> 57)"

definition int_of_digits :: "string \<Rightarrow> nat" where
  "int_of_digits ds = foldl (\<lambda>n c. 10 * n + ((of_char c :: nat) - 48)) 0 ds"

type_synonym version_key = "(nat \<times> nat \<times> nat) \<times> (nat \<times> nat \<times> nat)"

definition parse_prerelease :: "string \<Rightarrow> (nat \<times> nat \<times> nat) option" where
  "parse_prerelease r =
     (if r = [] \<or> r = [char_of (10 :: nat)] then Some (1, 0, 0)
      else (case r of
              [] \<Rightarrow> None
            | c # r1 \<Rightarrow>
                (let num = takeWhile is_digit r1; r2 = dropWhile is_digit r1
                 in if (c = CHR ''a'' \<or> c = CHR ''b'') \<and> num \<noteq> []
                       \<and> (r2 = [] \<or> r2 = [char_of (10 :: nat)])
                    then Some (0, of_char c, int_of_digits num)
                    else None)))"

definition parse_version :: "string \<Rightarrow> version_key option" where
  "parse_version vstring =
     (let major = takeWhile is_digit vstring; r1 = dropWhile is_digit vstring
      in if major = [] then None
         else (case r1 of
                 [] \<Rightarrow> None
               | d1 # r2 \<Rightarrow>
                   (let minor = takeWhile is_digit r2; r3 = dropWhile is_digit r2
                    in if d1 \<noteq> CHR ''.'' \<or> minor = [] then None
                       else (let with_patch =
                                   (case r3 of
                                      [] \<Rightarrow> None
                                    | d2 # r4 \<Rightarrow>
                                        if d2 = CHR ''.'' \<and> takeWhile is_digit r4 \<noteq> []
                                        then Some (takeWhile is_digit r4, dropWhile is_digit r4)
                                        else None)
                             in case with_patch of
                                  Some (patch, r5) \<Rightarrow>
                                    map_option
                                      (Pair (int_of_digits major, int_of_digits minor,
                                             int_of_digits patch))
                                      (parse_prerelease r5)
                                | None \<Rightarrow>
                                    map_option
                                      (Pair (int_of_digits major, int_of_digits minor, 0))
                                      (parse_prerelease r3)))))"

text \<open>
  \<open>active_versions.sort(key=StrictVersion)\<close>. The keys are computed first, and a
  string that is not a version raises \<open>ValueError\<close>. \<open>StrictVersion('')\<close> is built
  without a version, so comparing it (which sorting two or more elements does) raises
  \<open>AttributeError\<close>. The sort is stable.
\<close>

definition sort_versions :: "string list \<Rightarrow> exc + string list" where
  "sort_versions vs =
     (if \<exists>v \<in> set vs. v \<noteq> [] \<and> parse_version v = None then Inl ValueError
      else if [] \<in> set vs \<and> length vs \<ge> 2 then Inl AttributeError
      else Inr (sort_key (\<lambda>v. the (parse_version v)) vs))"

text \<open>
  The loop of \<open>get_supported_versions_list\<close> over the \<open>VersionInfo\<close> elements. An entry
  is kept when \<open>hasattr(version, 'deprecated')\<close> is false, that is when it has no child
  element of that name, or when its XML attribute \<open>deprecated\<close> is \<open>false\<close>.
  \<open>version.Version\<close> is the child element, and \<open>str\<close> of a missing text is \<open>None\<close>.
\<close>

fun active_loop :: "element list \<Rightarrow> string list \<Rightarrow> exc + string list" where
  "active_loop [] active_versions = Inr active_versions"
| "active_loop (version # rest) active_versions =
     (if \<not> hasattr version ''deprecated'' \<or> get version ''deprecated'' = Some ''false''
      then (case lookup_child version ''Version'' of
              None \<Rightarrow> Inl AttributeError
            | Some v \<Rightarrow>
                active_loop rest
                  (active_versions @ [case elem_text v of None \<Rightarrow> ''None'' | Some t \<Rightarrow> t]))
      else active_loop rest active_versions)"

text \<open>
  \<open>get_supported_versions_list\<close>, given what the \<open>GET\<close> of \<open>/versions\<close> on a fresh
  connection gives. \<open>objectify.fromstring\<close> raises on an empty body, and
  \<open>versions.VersionInfo\<close> raises \<open>AttributeError\<close> when there is no such child.
\<close>

definition get_supported_versions_list :: "exc + response \<Rightarrow> exc + string list" where
  "get_supported_versions_list answer =
     (case answer of
        Inl e \<Rightarrow> Inl e
      | Inr resp \<Rightarrow>
          if status_code resp \<noteq> 200 then Inl (VcdException ''Unable to get supported API versions.'')
          else (case objectified resp of
                  Inl e \<Rightarrow> Inl e
                | Inr None \<Rightarrow> Inl ValueError
                | Inr (Some versions) \<Rightarrow>
                    (case findall versions (ns versions) ''VersionInfo'' of
                       [] \<Rightarrow> Inl AttributeError
                     | infos \<Rightarrow>
                         (case active_loop infos [] of
                            Inl e \<Rightarrow> Inl e
                          | Inr active_versions \<Rightarrow> sort_versions active_versions))))"

text \<open>
  The loop \<open>for version in reversed(active_versions)\<close> of \<open>_negotiate_api_version\<close>,
  given the list already reversed: the first element that is in
  \<open>API_CURRENT_VERSIONS\<close> is taken.
\<close>

fun first_supported :: "string list \<Rightarrow> string option" where
  "first_supported [] = None"
| "first_supported (version # rest) =
     (if version \<in> set API_CURRENT_VERSIONS then Some version else first_supported rest)"

text \<open>
  \<open>_negotiate_api_version\<close>: the value of \<open>self._api_version\<close> afterwards. A version
  given at construction (a non-empty string) is kept and nothing is fetched.
\<close>

definition negotiate_api_version :: "exc + response \<Rightarrow> string option \<Rightarrow> exc + string" where
  "negotiate_api_version answer api_version =
     (if truthy api_version then Inr (the api_version)
      else (case get_supported_versions_list answer of
              Inl e \<Rightarrow> Inl e
            | Inr active_versions \<Rightarrow>
                (case first_supported (rev active_versions) of
                   Some version \<Rightarrow> Inr version
                 | None \<Rightarrow>
                     Inl (VcdException
                       ''Unable to find a supported API version in available server versions''))))"

section \<open>Example inputs\<close>

text \<open>
  A query catalogue with one entry, and a server that answers every query URI with a page
  holding a next-page link and one record, with the given \<open>total\<close> attribute.
\<close>

definition example_page :: "string \<Rightarrow> element" where
  "example_page tot =
     Element NS_VCLOUD ''QueryResultRecords'' [(''total'', tot)] None
       [Element NS_VCLOUD ''Link'' [(''rel'', ''nextPage''), (''href'', ''next'')] None [],
        Element NS_VCLOUD ''VMRecord'' [(''name'', ''vm1'')] None []]"

definition example_env :: "string \<Rightarrow> query_env" where
  "example_env tot =
     \<lparr> is_below_v35 = False,
       quote = (\<lambda>s. s),
       int_of_str = (\<lambda>s. if s = ''51'' then Some 51 else if s = ''50'' then Some 50 else None),
       get_resource = (\<lambda>uri. Inr (Some (example_page tot))),
       query_list_map = (\<lambda>k. if k = (''records+xml'', ''vm'') then Some ''q?type=vm'' else None) \<rparr>"

definition example_query :: "string \<Rightarrow> int option \<Rightarrow> int option \<Rightarrow> query" where
  "example_query tot page page_size =
     init_query (example_env tot) ''vm'' ''records+xml'' page page_size False None None
       None None None"

text \<open>
  Three pages of page size 2 holding 5 records, linked by next-page links, and the
  server that answers the two link targets with pages two and three.
\<close>

definition example_record :: "string \<Rightarrow> element" where
  "example_record n = Element NS_VCLOUD ''VMRecord'' [(''name'', n)] None []"

definition example_next_link :: "string \<Rightarrow> element" where
  "example_next_link u =
     Element NS_VCLOUD ''Link'' [(''rel'', ''nextPage''), (''href'', u)] None []"

definition example_page1 :: element where
  "example_page1 =
     Element NS_VCLOUD ''QueryResultRecords'' [(''total'', ''5'')] None
       [example_next_link ''q&page=2'', example_record ''r1'', example_record ''r2'']"

definition example_page2 :: element where
  "example_page2 =
     Element NS_VCLOUD ''QueryResultRecords'' [(''total'', ''5'')] None
       [Element NS_VCLOUD ''Link'' [(''rel'', ''previousPage''), (''href'', ''q&page=1'')] None [],
        example_next_link ''q&page=3'', example_record ''r3'', example_record ''r4'']"

definition example_page3 :: element where
  "example_page3 =
     Element NS_VCLOUD ''QueryResultRecords'' [(''total'', ''5'')] None
       [Element NS_VCLOUD ''Link'' [(''rel'', ''previousPage''), (''href'', ''q&page=2'')] None [],
        example_record ''r5'']"

definition example_fetch :: "string \<Rightarrow> exc + element option" where
  "example_fetch u =
     (if u = ''q&page=2'' then Inr (Some example_page2)
      else if u = ''q&page=3'' then Inr (Some example_page3)
      else Inl (ResponseException NotFoundException 404 None))"

definition example_stream_env :: query_env where
  "example_stream_env =
     \<lparr> is_below_v35 = False,
       quote = (\<lambda>s. s),
       int_of_str = (\<lambda>s. if s = ''5'' then Some 5 else None),
       get_resource = (\<lambda>uri. if uri = ''q&page=1&pageSize=2'' then Inr (Some example_page1)
                              else example_fetch uri),
       query_list_map = (\<lambda>k. if k = (''records+xml'', ''vm'') then Some ''q'' else None) \<rparr>"

definition example_stream_query :: query where
  "example_stream_query =
     init_query example_stream_env ''vm'' ''records+xml'' None (Some 2) False None None
       None None None"

text \<open>
  A client as a login of the system organisation's administrator leaves it, and a server
  that answers the \<open>DELETE\<close> of the session with 204 and no body.
\<close>

definition example_client :: client where
  "example_client =
     (init_client ''https://vcd/api'' (Some ''36.0''))
       \<lparr> c_session := Some [(''Authorization'', ''Bearer jwt'')],
         c_vcloud_access_token := Some ''jwt'',
         c_vcloud_auth_token := Some ''token'',
         c_vcloud_session :=
           Some (Element NS_VCLOUD ''Session'' [(''org'', ''System'')] None []),
         c_is_sysadmin := True,
         c_session_endpoints := Some [(''ADMIN'', ''https://vcd/api/admin/'')] \<rparr>"


text \<open>
  A server that answers the first four \<open>PUT\<close> requests with 416 and every later one
  with 200, a server that always answers 416, and the class hierarchy in which every
  class raised for a status code derives from \<open>VcdResponseException\<close>.
\<close>

definition example_upload_server :: "nat \<Rightarrow> server" where
  "example_upload_server failures past method uri =
     Inr \<lparr> status_code = (if length (filter (\<lambda>ev. ev = Sent ''PUT'' uri) past) < failures
                           then 416 else 200),
           request_id = None, objectified = Inr None \<rparr>"

definition all_derive :: "response_class \<Rightarrow> bool" where
  "all_derive k = True"

text \<open>
  A task that stays at \<open>running\<close>, watched with a clock that advances by 10 ms from one
  reading to the next, and a task that has reached \<open>error\<close>.
\<close>

definition example_task :: "string \<Rightarrow> element" where
  "example_task st =
     Element NS_VCLOUD ''Task'' [(''href'', ''https://vcd/api/task/1''), (''status'', st)] None
       [Element NS_VCLOUD ''Error'' [(''message'', ''failed'')] None []]"

definition example_task_env :: "string \<Rightarrow> task_env" where
  "example_task_env st =
     \<lparr> fetch_task = (\<lambda>i h. Inr (Some (example_task st))),
       now = (\<lambda>i. 10000 * int i) \<rparr>"

text \<open>
  A \<open>/versions\<close> document as the server sends it: the flag \<open>deprecated\<close> is an XML
  attribute of \<open>VersionInfo\<close>, the version number is the text of its child \<open>Version\<close>.
\<close>

definition NS_VERSIONS :: string where
  "NS_VERSIONS = ''http://www.vmware.com/vcloud/versions''"

definition version_info :: "string \<Rightarrow> string \<Rightarrow> element" where
  "version_info flag v =
     Element NS_VERSIONS ''VersionInfo'' [(''deprecated'', flag)] None
       [Element NS_VERSIONS ''Version'' [] (Some v) [],
        Element NS_VERSIONS ''LoginUrl'' [] (Some ''https://vcd/api/sessions'') []]"

definition versions_answer :: "element list \<Rightarrow> exc + response" where
  "versions_answer infos =
     Inr \<lparr> status_code = 200, request_id = None,
           objectified = Inr (Some (Element NS_VERSIONS ''SupportedVersions'' [] None infos)) \<rparr>"

section \<open>Properties\<close>

subsection \<open>Header redaction\<close>

lemma redact_fold_append:
  "distinct (map fst (acc @ hs)) \<Longrightarrow>
   fold redact_step hs acc =
     acc @ map (\<lambda>kv. (fst kv, if fst kv \<in> set HEADERS_TO_REDACT then REDACTED else snd kv)) hs"
proof (induction hs arbitrary: acc)
  case Nil
  then show ?case by simp
next
  case (Cons kv hs)
  have notin: "fst kv \<notin> fst ` set acc"
    using Cons.prems by auto
  define w where "w = (if fst kv \<in> set HEADERS_TO_REDACT then REDACTED else snd kv)"
  have upd: "AList.update (fst kv) v acc = acc @ [(fst kv, v)]" for v
    using notin by (induction acc) auto
  have step: "redact_step kv acc = acc @ [(fst kv, w)]"
    by (simp add: redact_step_def upd w_def)
  have d: "distinct (map fst ((acc @ [(fst kv, w)]) @ hs))"
    using Cons.prems by auto
  have "fold redact_step (kv # hs) acc = fold redact_step hs (acc @ [(fst kv, w)])"
    by (simp add: step)
  also have "\<dots> = (acc @ [(fst kv, w)]) @
      map (\<lambda>kv. (fst kv, if fst kv \<in> set HEADERS_TO_REDACT then REDACTED else snd kv)) hs"
    by (rule Cons.IH [OF d])
  finally show ?case by (simp add: w_def)
qed

lemma redact_headers_map:
  "distinct (map fst hs) \<Longrightarrow>
   redact_headers hs =
     map (\<lambda>kv. (fst kv, if fst kv \<in> set HEADERS_TO_REDACT then REDACTED else snd kv)) hs"
  using redact_fold_append [of "[]" hs] by (simp add: redact_headers_def)

text \<open>
  Claim C9. For every header dictionary, \<open>_redact_headers\<close> returns a dictionary with
  the same keys in the same order; a key outside \<open>_HEADERS_TO_REDACT\<close> keeps its value
  and a key of \<open>_HEADERS_TO_REDACT\<close> gets the placeholder \<open>[REDACTED]\<close>. The function
  takes no logging flag, and whatever the three logging flags are, the only header dump
  \<open>_log_request_sent\<close> writes is the redacted dictionary.
\<close>

theorem redact_headers_correct:
  assumes "distinct (map fst hs)"
  shows "map fst (redact_headers hs) = map fst hs
       \<and> (\<forall>k v. map_of hs k = Some v \<longrightarrow>
            map_of (redact_headers hs) k =
              Some (if k \<in> set HEADERS_TO_REDACT then REDACTED else v))
       \<and> (\<forall>lr lh lb m u b h. LogHeaders h \<in> set (log_request_sent lr lh lb m u hs b) \<longrightarrow>
            h = redact_headers hs)"
proof -
  let ?f = "\<lambda>kv::string \<times> string.
    (fst kv, if fst kv \<in> set HEADERS_TO_REDACT then REDACTED else snd kv)"
  have eq: "redact_headers hs = map ?f hs"
    by (rule redact_headers_map [OF assms])
  have keys: "map fst (redact_headers hs) = map fst hs"
    by (simp add: eq comp_def)
  have vals: "map_of (map ?f hs) k = Some (if k \<in> set HEADERS_TO_REDACT then REDACTED else v)"
    if "map_of hs k = Some v" for k v
    using that by (induction hs) (auto split: if_splits)
  have logs: "h = redact_headers hs"
    if "LogHeaders h \<in> set (log_request_sent lr lh lb m u hs b)" for lr lh lb m u b h
    using that by (auto simp: log_request_sent_def split: if_splits option.splits)
  show ?thesis
    using keys vals logs by (simp add: eq)
qed

theorem redact_headers_correct_witness:
  "distinct (map fst [(''Authorization'', ''Bearer abc''), (''Accept'', ''application/*+xml''),
      (''Content-Type'', ''text/xml'')])
   \<and> map fst (redact_headers
       [(''Authorization'', ''Bearer abc''), (''Accept'', ''application/*+xml''),
        (''Content-Type'', ''text/xml'')]) = [''Authorization'', ''Accept'', ''Content-Type'']
   \<and> map_of (redact_headers
       [(''Authorization'', ''Bearer abc''), (''Accept'', ''application/*+xml''),
        (''Content-Type'', ''text/xml'')]) ''Authorization'' = Some ''[REDACTED]''
   \<and> map_of (redact_headers
       [(''Authorization'', ''Bearer abc''), (''Accept'', ''application/*+xml''),
        (''Content-Type'', ''text/xml'')]) ''Accept'' = Some ''application/*+xml''
   \<and> map_of (redact_headers
       [(''Authorization'', ''Bearer abc''), (''Accept'', ''application/*+xml''),
        (''Content-Type'', ''text/xml'')]) ''Content-Type'' = Some ''text/xml''"
proof -
  let ?hs = "[(''Authorization'', ''Bearer abc''), (''Accept'', ''application/*+xml''),
      (''Content-Type'', ''text/xml'')]"
  have d: "distinct (map fst ?hs)" by simp
  have keys: "map fst (redact_headers ?hs) = map fst ?hs"
    and vals: "\<And>k v. map_of ?hs k = Some v \<Longrightarrow>
            map_of (redact_headers ?hs) k =
              Some (if k \<in> set HEADERS_TO_REDACT then REDACTED else v)"
    using redact_headers_correct [OF d] by blast+
  have v1: "map_of (redact_headers ?hs) ''Authorization'' = Some ''[REDACTED]''"
    using vals [of "''Authorization''" "''Bearer abc''"]
    by (simp add: HEADERS_TO_REDACT_def HEADER_AUTHORIZATION_NAME_def REDACTED_def)
  have v2: "map_of (redact_headers ?hs) ''Accept'' = Some ''application/*+xml''"
    using vals [of "''Accept''" "''application/*+xml''"]
    by (simp add: HEADERS_TO_REDACT_def HEADER_AUTHORIZATION_NAME_def
        HEADER_X_VCLOUD_AUTH_NAME_def HEADER_X_VMWARE_CLOUD_ACCESS_TOKEN_NAME_def)
  have v3: "map_of (redact_headers ?hs) ''Content-Type'' = Some ''text/xml''"
    using vals [of "''Content-Type''" "''text/xml''"]
    by (simp add: HEADERS_TO_REDACT_def HEADER_AUTHORIZATION_NAME_def
        HEADER_X_VCLOUD_AUTH_NAME_def HEADER_X_VMWARE_CLOUD_ACCESS_TOKEN_NAME_def)
  show ?thesis
    using d keys v1 v2 v3 by simp
qed

subsection \<open>Link resolver\<close>

lemma get_links_loop_step:
  "get_links_loop (e # es) r m n acc =
     get_links_loop es r m n (if link_matches r m n e then acc @ [mk_Link e] else acc)"
  by (auto simp: link_matches_def Let_def)

lemma get_links_loop_filter:
  "get_links_loop es r m n acc = acc @ map mk_Link (filter (link_matches r m n) es)"
proof (induction es arbitrary: acc)
  case Nil
  show ?case by simp
next
  case (Cons e es)
  show ?case
    unfolding get_links_loop_step Cons.IH by simp
qed

text \<open>
  Claim C4. \<open>get_links\<close> returns, in document order, exactly the \<open>Link\<close> children that
  match the relation, content-type and name filters as the specification words the rule;
  \<open>find_link\<close> over the same list raises \<open>MissingLinkException\<close> when it is empty and
  \<open>fail_if_absent\<close> is true, returns \<open>None\<close> when it is empty and \<open>fail_if_absent\<close> is
  false, returns the single link when there is one, and raises
  \<open>MultipleLinksException\<close> when there are two or more.
\<close>

theorem find_links_correct:
  "get_links resource r m n =
     map mk_Link (filter (link_matches r m n) (findall resource NS_VCLOUD ''Link''))
   \<and> find_link resource r m fail_if_absent n =
     (case get_links resource r m n of
        [] \<Rightarrow> if fail_if_absent then Inl (MissingLinkException (get resource ''href'') r m)
              else Inr None
      | [l] \<Rightarrow> Inr (Some l)
      | _ # _ # _ \<Rightarrow> Inl (MultipleLinksException (get resource ''href'') r m))"
proof
  show "get_links resource r m n =
     map mk_Link (filter (link_matches r m n) (findall resource NS_VCLOUD ''Link''))"
    by (simp add: get_links_def get_links_loop_filter)
next
  show "find_link resource r m fail_if_absent n =
     (case get_links resource r m n of
        [] \<Rightarrow> if fail_if_absent then Inl (MissingLinkException (get resource ''href'') r m)
              else Inr None
      | [l] \<Rightarrow> Inr (Some l)
      | _ # _ # _ \<Rightarrow> Inl (MultipleLinksException (get resource ''href'') r m))"
    by (simp add: find_link_def Let_def split: list.splits)
qed

subsection \<open>Typed query engine\<close>

lemma init_query_single_page:
  "p \<noteq> 0 \<Longrightarrow>
   q = init_query env tn mt (Some p) ps il qf ef sa sd fs \<Longrightarrow>
   \<not> q_query_all_pages q \<and> q_page q = p \<and> q_page_size q = ps
   \<and> q_include_links q = il \<and> q_fields q = fs"
  by (simp add: init_query_def Let_def)

lemma single_page_result:
  assumes "get doc ''total'' = Some ts" and "int_of_str env ts = Some t"
    and "q_page_size q = Some s"
  shows "\<exists>d. single_page env q h doc = Inr (PageResult d)
     \<and> map_of d ''resultTotal'' = Some (PyInt t)
     \<and> map_of d ''nextPageUri'' =
         Some (if q_page q * s < t
               then PyStr (build_query_uri env q h (q_page q + 1) (Some s) (q_filter q)
                      (q_include_links q) (q_fields q))
               else PyNone)
     \<and> map_of d ''previousPageUri'' =
         (if q_page q > 1
          then Some (PyStr (build_query_uri env q h (q_page q - 1) (Some s) (q_filter q)
                      (q_include_links q) (q_fields q)))
          else None)
     \<and> map_of d ''values'' = Some (PyList (filter (\<lambda>r. localname r \<noteq> ''Link'') (children doc)))"
  using assms by (simp add: single_page_def Let_def update_conv')

text \<open>
  Claim C7. A query built with an explicit page \<open>p\<close> (not zero) and page size \<open>s\<close>, whose
  page is fetched and carries the total \<open>t\<close>, returns a dictionary whose \<open>nextPageUri\<close>
  is a URI when \<open>p * s < t\<close> and \<open>None\<close> otherwise, and which has the key
  \<open>previousPageUri\<close> (a URI) when \<open>p > 1\<close> and lacks it otherwise.
\<close>

theorem execute_single_page_links:
  assumes q: "q = init_query env tn mt (Some p) (Some s) il qf ef sa sd fs"
    and p: "p \<noteq> 0"
    and href: "find_query_uri env q = Some h"
    and page: "get_resource env (build_query_uri env q h p (Some s) (q_filter q) il fs) =
                 Inr (Some doc)"
    and total: "get doc ''total'' = Some ts" "int_of_str env ts = Some t"
  shows "\<exists>d. execute env q = Inr (PageResult d)
     \<and> map_of d ''resultTotal'' = Some (PyInt t)
     \<and> map_of d ''nextPageUri'' =
         Some (if p * s < t
               then PyStr (build_query_uri env q h (p + 1) (Some s) (q_filter q) il fs)
               else PyNone)
     \<and> map_of d ''previousPageUri'' =
         (if p > 1
          then Some (PyStr (build_query_uri env q h (p - 1) (Some s) (q_filter q) il fs))
          else None)
     \<and> map_of d ''values'' = Some (PyList (filter (\<lambda>r. localname r \<noteq> ''Link'') (children doc)))"
proof -
  have f: "\<not> q_query_all_pages q" "q_page q = p" "q_page_size q = Some s"
    "q_include_links q = il" "q_fields q = fs"
    using init_query_single_page [OF p q] by simp_all
  have ex: "execute env q = single_page env q h doc"
    using href page by (simp add: execute_def Let_def f)
  show ?thesis
    unfolding ex by (rule single_page_result [OF total f(3), of h, unfolded f])
qed

theorem execute_single_page_links_witness:
  "\<exists>d. execute (example_env ''51'') (example_query ''51'' (Some 2) (Some 25)) = Inr (PageResult d)
     \<and> map_of d ''nextPageUri'' = Some (PyStr ''q?type=vm&page=3&pageSize=25'')
     \<and> map_of d ''previousPageUri'' = Some (PyStr ''q?type=vm&page=1&pageSize=25'')"
proof -
  let ?env = "example_env ''51''"
  let ?q = "example_query ''51'' (Some 2) (Some 25)"
  have q: "?q = init_query ?env ''vm'' ''records+xml'' (Some 2) (Some 25) False None None None None None"
    by (simp add: example_query_def)
  have p: "(2::int) \<noteq> 0" by simp
  have href: "find_query_uri ?env ?q = Some ''q?type=vm''"
    by (simp add: find_query_uri_def example_env_def example_query_def init_query_def)
  have page: "get_resource ?env (build_query_uri ?env ?q ''q?type=vm'' 2 (Some 25) (q_filter ?q) False None)
      = Inr (Some (example_page ''51''))"
    by (simp add: example_env_def)
  have total: "get (example_page ''51'') ''total'' = Some ''51''" "int_of_str ?env ''51'' = Some 51"
    by (simp_all add: get_def example_page_def example_env_def)
  have b3: "build_query_uri ?env ?q ''q?type=vm'' (2 + 1) (Some 25) (q_filter ?q) False None = ''q?type=vm&page=3&pageSize=25''"
    by (simp add: build_query_uri_def example_query_def init_query_def str_of_int_def digit_char_def truthy_def example_env_def escape_special_characters_def)
  have b1: "build_query_uri ?env ?q ''q?type=vm'' (2 - 1) (Some 25) (q_filter ?q) False None = ''q?type=vm&page=1&pageSize=25''"
    by (simp add: build_query_uri_def example_query_def init_query_def str_of_int_def digit_char_def truthy_def example_env_def escape_special_characters_def)
  show ?thesis
    using execute_single_page_links [OF q p href page total] unfolding b1 b3 by auto
qed

text \<open>
  Claim C10. A query built with a page number that is not zero and with \<open>page_size\<close>
  left \<open>None\<close> never returns from \<open>execute\<close>: once the query URI is found, the page
  fetched and its total read, the product \<open>page * page_size\<close> raises \<open>TypeError\<close>
  (and every earlier failure is an exception too). A page number \<open>0\<close> builds the same
  query as no page number: all-pages mode with page number 1.
\<close>

theorem execute_without_page_size:
  assumes q: "q = init_query env tn mt (Some p) None il qf ef sa sd fs" and p: "p \<noteq> 0"
  shows "(\<forall>r. execute env q \<noteq> Inr r)
     \<and> (\<forall>h doc ts t.
          find_query_uri env q = Some h \<longrightarrow>
          get_resource env (build_query_uri env q h p None (q_filter q) il fs) = Inr (Some doc) \<longrightarrow>
          get doc ''total'' = Some ts \<longrightarrow>
          int_of_str env ts = Some t \<longrightarrow>
          execute env q = Inl TypeError)
     \<and> (let q0 = init_query env tn mt (Some 0) ps il qf ef sa sd fs
        in q_query_all_pages q0 \<and> q_page q0 = 1
           \<and> q0 = init_query env tn mt None ps il qf ef sa sd fs)"
proof -
  have f: "\<not> q_query_all_pages q" "q_page q = p" "q_page_size q = None"
    "q_include_links q = il" "q_fields q = fs"
    using init_query_single_page [OF p q] by simp_all
  have sp: "single_page env q h doc \<noteq> Inr r" for h doc r
    by (simp add: single_page_def f split: option.splits)
  have a: "execute env q \<noteq> Inr r" for r
    using sp by (auto simp: execute_def Let_def f split: option.splits sum.splits)
  have b: "execute env q = Inl TypeError"
    if "find_query_uri env q = Some h"
      "get_resource env (build_query_uri env q h p None (q_filter q) il fs) = Inr (Some doc)"
      "get doc ''total'' = Some ts" "int_of_str env ts = Some t" for h doc ts t
    using that by (simp add: execute_def Let_def f single_page_def)
  have c: "let q0 = init_query env tn mt (Some 0) ps il qf ef sa sd fs
        in q_query_all_pages q0 \<and> q_page q0 = 1
           \<and> q0 = init_query env tn mt None ps il qf ef sa sd fs"
    by (simp add: init_query_def Let_def)
  show ?thesis
    using a b c by blast
qed

theorem execute_without_page_size_witness:
  "execute (example_env ''51'') (example_query ''51'' (Some 2) None) = Inl TypeError
   \<and> q_query_all_pages (example_query ''51'' (Some 0) None)
   \<and> q_page (example_query ''51'' (Some 0) None) = 1"
proof -
  let ?env = "example_env ''51''"
  let ?q = "example_query ''51'' (Some 2) None"
  have q: "?q = init_query ?env ''vm'' ''records+xml'' (Some 2) None False None None None None None"
    by (simp add: example_query_def)
  have p: "(2::int) \<noteq> 0" by simp
  have href: "find_query_uri ?env ?q = Some ''q?type=vm''"
    by (simp add: find_query_uri_def example_env_def example_query_def init_query_def)
  have page: "get_resource ?env (build_query_uri ?env ?q ''q?type=vm'' 2 None (q_filter ?q) False None)
      = Inr (Some (example_page ''51''))"
    by (simp add: example_env_def)
  have total: "get (example_page ''51'') ''total'' = Some ''51''" "int_of_str ?env ''51'' = Some 51"
    by (simp_all add: get_def example_page_def example_env_def)
  note w = execute_without_page_size [OF q p, of None]
  have e: "execute ?env ?q = Inl TypeError"
    using w href page total by blast
  have z: "q_query_all_pages (example_query ''51'' (Some 0) None)
     \<and> q_page (example_query ''51'' (Some 0) None) = 1"
    using w unfolding example_query_def Let_def by blast
  show ?thesis using e z by simp
qed

subsection \<open>All-pages mode\<close>

lemma page_loop_spec:
  "page_loop cs n = (filter (\<lambda>c. localname c \<noteq> ''Link'') cs,
     case rev (filter is_next_link cs) of [] \<Rightarrow> n | l # _ \<Rightarrow> get l ''href'')"
  by (induction cs arbitrary: n) (auto simp: is_next_link_def split: list.splits)

lemma page_loop_page:
  "page_loop (children page) None = (records page, next_link_href page)"
  by (simp add: page_loop_spec records_def next_link_href_def)

lemma iterator_last_page:
  "next_link_href page = None \<Longrightarrow>
   iterator (Suc n) fetch (Some page) = Some (page_events page, None)"
  by (simp add: page_loop_page page_events_def)

lemma iterator_next_page:
  "next_link_href page = Some u \<Longrightarrow> fetch u = Inr nxt \<Longrightarrow>
   iterator (Suc n) fetch (Some page) =
     map_option (\<lambda>(evs, ending). (page_events page @ evs, ending)) (iterator n fetch nxt)"
  by (simp add: page_loop_page page_events_def)

lemma iterator_result_set:
  "result_set fetch pages \<Longrightarrow>
   iterator (length pages + k) fetch (Some (hd pages)) = Some (concat (map page_events pages), None)"
proof (induction fetch pages rule: result_set.induct)
  case (1 fetch)
  then show ?case by simp
next
  case (2 fetch p)
  then show ?case by (simp add: iterator_last_page del: iterator.simps)
next
  case (3 fetch p q ps)
  from "3.prems" obtain u where u: "next_link_href p = Some u" "fetch u = Inr (Some q)"
    and rest: "result_set fetch (q # ps)"
    by (auto split: option.splits)
  have "iterator (length (q # ps) + k) fetch (Some q) = Some (concat (map page_events (q # ps)), None)"
    using "3.IH" [OF rest] by simp
  then show ?case
    using iterator_next_page [of p u fetch "Some q" "length (q # ps) + k"] u
    by (simp del: iterator.simps)
qed

lemma yielded_append: "yielded (xs @ ys) = yielded xs @ yielded ys"
  by (induction xs rule: yielded.induct) simp_all

lemma fetched_append: "fetched (xs @ ys) = fetched xs @ fetched ys"
  by (induction xs rule: fetched.induct) simp_all

lemma yielded_map_Yield: "yielded (map Yield rs) = rs" "fetched (map Yield rs) = []"
  by (induction rs) simp_all

lemma yielded_page_events: "yielded (page_events p) = records p"
  by (simp add: page_events_def yielded_append yielded_map_Yield split: option.splits)

lemma fetched_page_events:
  "fetched (page_events p) = (case next_link_href p of None \<Rightarrow> [] | Some u \<Rightarrow> [u])"
  by (simp add: page_events_def fetched_append yielded_map_Yield split: option.splits)

lemma yielded_pages: "yielded (concat (map page_events ps)) = concat (map records ps)"
  by (induction ps) (simp_all add: yielded_append yielded_page_events)

lemma fetched_pages:
  "fetched (concat (map page_events ps)) =
     concat (map (\<lambda>p. case next_link_href p of None \<Rightarrow> [] | Some u \<Rightarrow> [u]) ps)"
  by (induction ps) (simp_all add: fetched_append fetched_page_events)

lemma next_link_href_has_link: "next_link_href p = Some u \<Longrightarrow> has_next_link p"
  by (auto simp: next_link_href_def has_next_link_def split: list.splits)

lemma no_next_link: "\<not> has_next_link p \<Longrightarrow> next_link_href p = None"
  by (auto simp: next_link_href_def has_next_link_def split: list.splits)

text \<open>
  Claim C6. In all-pages mode \<open>execute\<close> returns the generator over the first page.
  For every paginated result set the generator ends (within as many rounds of its loop
  as there are pages), having yielded exactly the non-link children of each page, page
  by page in document order; it fetches a page only as the target of a next-page link
  of the page it has just gone through, after that page's records; and on a page without
  a next-page link it ends after the page's records without fetching anything.
\<close>

theorem iterator_stream_all:
  assumes ex: "execute env q = Inr (Generator first)"
    and rs: "result_set (get_resource env) pages"
    and first: "first = Some (hd pages)"
  shows "iterator (length pages + k) (get_resource env) first =
           Some (concat (map page_events pages), None)
     \<and> yielded (concat (map page_events pages)) = concat (map records pages)
     \<and> fetched (concat (map page_events pages)) =
           concat (map (\<lambda>p. case next_link_href p of None \<Rightarrow> [] | Some u \<Rightarrow> [u]) pages)
     \<and> (\<forall>p u. next_link_href p = Some u \<longrightarrow> has_next_link p)
     \<and> (\<forall>p n. \<not> has_next_link p \<longrightarrow>
           iterator (Suc n) (get_resource env) (Some p) = Some (map Yield (records p), None))"
proof -
  have a: "iterator (length pages + k) (get_resource env) first =
           Some (concat (map page_events pages), None)"
    unfolding first by (rule iterator_result_set [OF rs])
  have e: "iterator (Suc n) (get_resource env) (Some p) = Some (map Yield (records p), None)"
    if "\<not> has_next_link p" for p n
    using iterator_last_page [OF no_next_link [OF that], of n "get_resource env"]
    by (simp add: page_events_def no_next_link [OF that] del: iterator.simps)
  show ?thesis
    using a yielded_pages fetched_pages next_link_href_has_link e by blast
qed

theorem iterator_stream_all_witness:
  "\<exists>evs. iterator 3 (get_resource example_stream_env) (Some example_page1) = Some (evs, None)
     \<and> yielded evs =
         [example_record ''r1'', example_record ''r2'', example_record ''r3'',
          example_record ''r4'', example_record ''r5'']
     \<and> fetched evs = [''q&page=2'', ''q&page=3'']"
proof -
  let ?pages = "[example_page1, example_page2, example_page3]"
  have n1: "next_link_href example_page1 = Some ''q&page=2''"
    by (simp add: next_link_href_def example_page1_def is_next_link_def example_next_link_def
        example_record_def get_def NEXT_PAGE_def)
  have n2: "next_link_href example_page2 = Some ''q&page=3''"
    by (simp add: next_link_href_def example_page2_def is_next_link_def example_next_link_def
        example_record_def get_def NEXT_PAGE_def)
  have n3: "next_link_href example_page3 = None"
    by (simp add: next_link_href_def example_page3_def is_next_link_def example_next_link_def
        example_record_def get_def NEXT_PAGE_def)
  have r1: "records example_page1 = [example_record ''r1'', example_record ''r2'']"
    by (simp add: records_def example_page1_def example_next_link_def example_record_def)
  have r2: "records example_page2 = [example_record ''r3'', example_record ''r4'']"
    by (simp add: records_def example_page2_def example_next_link_def example_record_def)
  have r3: "records example_page3 = [example_record ''r5'']"
    by (simp add: records_def example_page3_def example_next_link_def example_record_def)
  have ex: "execute example_stream_env example_stream_query = Inr (Generator (Some example_page1))"
    by (simp add: execute_def example_stream_env_def example_stream_query_def init_query_def
        find_query_uri_def build_query_uri_def str_of_int_def digit_char_def truthy_def
        escape_special_characters_def)
  have rs: "result_set (get_resource example_stream_env) ?pages"
    by (simp add: n1 n2 n3 example_stream_env_def example_fetch_def)
  have first: "Some example_page1 = Some (hd ?pages)" by simp
  note w = iterator_stream_all [OF ex rs first, of 0]
  have w1: "iterator (length ?pages + 0) (get_resource example_stream_env) (Some example_page1) =
      Some (concat (map page_events ?pages), None)"
    using w by blast
  have len: "length ?pages + 0 = 3" by simp
  have it: "iterator 3 (get_resource example_stream_env) (Some example_page1) =
      Some (concat (map page_events ?pages), None)"
    using w1 unfolding len .
  have w2: "yielded (concat (map page_events ?pages)) = concat (map records ?pages)"
    using w by blast
  have y: "yielded (concat (map page_events ?pages)) =
         [example_record ''r1'', example_record ''r2'', example_record ''r3'',
          example_record ''r4'', example_record ''r5'']"
    unfolding w2 by (simp add: r1 r2 r3)
  have w3: "fetched (concat (map page_events ?pages)) =
      concat (map (\<lambda>p. case next_link_href p of None \<Rightarrow> [] | Some u \<Rightarrow> [u]) ?pages)"
    using w by blast
  have f: "fetched (concat (map page_events ?pages)) = [''q&page=2'', ''q&page=3'']"
    unfolding w3 by (simp add: n1 n2 n3)
  show ?thesis
    using it y f by blast
qed

subsection \<open>Logout\<close>





subsection \<open>Upload of a fragment\<close>







lemma upload_example_exhausted: "upload_fragment (\<lambda>k. k = InvalidContentLengthException) (example_upload_server 5) example_client ''u'' =
     (Inl (ResponseException InvalidContentLengthException 416 None),
      after_puts example_client ''u'' 5)"
    by (simp add: upload_fragment_def upload_loop.simps try_put_def example_upload_server_def
        example_client_def init_client_def after_puts_def UPLOAD_FRAGMENT_MAX_RETRIES_def
        response_code_to_exception_def isinstance_VcdResponseException_def all_derive_def
        numeral_eq_Suc)



subsection \<open>Task monitor\<close>

lemma wait_loop_stuck:
  assumes tmo: "0 \<le> timeout" and pf: "0 \<le> poll_frequency"
    and clock: "\<And>i. start_time \<le> now env i"
    and stuck: "\<And>i. \<exists>t st. fetch_task env i h = Inr (Some t) \<and> get t ''status'' = Some st
        \<and> (\<forall>s \<in> set targets. lower st \<noteq> lower (status_value s))
        \<and> (\<forall>s \<in> set fails. lower st \<noteq> lower (status_value s))"
    and cb: "\<And>t. run_callback callback t = None"
  shows "wait_loop n env h timeout poll_frequency fails targets callback start_time i = None"
proof (induction n arbitrary: i)
  case 0
  show ?case by simp
next
  case (Suc n)
  obtain t st where t: "fetch_task env i h = Inr (Some t)" "get t ''status'' = Some st"
    and nt: "\<forall>s \<in> set targets. lower st \<noteq> lower (status_value s)"
    and nf: "\<forall>s \<in> set fails. lower st \<noteq> lower (status_value s)"
    using stuck [of i] by blast
  have no_break: "\<not> start_time - now env (Suc i) > timeout"
    using clock [of "Suc i"] tmo by simp
  show ?case
    using t nt nf no_break pf cb Suc.IH [of "Suc i"] by (simp add: Let_def)
qed


text \<open>
  Claim C1. The claim, like the docstring of \<open>wait_for_status\<close>, has the call raise
  \<open>TaskTimeoutException\<close> once the time since \<open>start_time\<close> exceeds the timeout. The
  source subtracts the other way round: \<open>start_time - datetime.now()\<close> is never positive
  on a clock that does not run backwards, so it never exceeds a timeout that is not
  negative. For a task that stays at \<open>running\<close>, with a timeout of 0.02 s, a poll
  interval of 0.01 s and the default status lists, the loop is still running after
  any number of rounds: the call neither returns nor raises.
\<close>

theorem wait_for_status_never_times_out:
  "\<forall>n. wait_for_status n (example_task_env ''running'') (example_task ''running'') 20000 10000
        (FailList [ABORTED, CANCELED, ERROR]) [SUCCESS] None = None"
proof
  fix n
  have stuck: "\<exists>t st. fetch_task (example_task_env ''running'') i (get (example_task ''running'') ''href'')
          = Inr (Some t) \<and> get t ''status'' = Some st
        \<and> (\<forall>s \<in> set [SUCCESS]. lower st \<noteq> lower (status_value s))
        \<and> (\<forall>s \<in> set [ABORTED, CANCELED, ERROR]. lower st \<noteq> lower (status_value s))" for i
    by (simp add: example_task_env_def example_task_def get_def lower_def lower_char_def)
  have clock: "now (example_task_env ''running'') 0 \<le> now (example_task_env ''running'') i" for i
    by (simp add: example_task_env_def)
  show "wait_for_status n (example_task_env ''running'') (example_task ''running'') 20000 10000
        (FailList [ABORTED, CANCELED, ERROR]) [SUCCESS] None = None"
    unfolding wait_for_status_def fail_on.case
    by (rule wait_loop_stuck [OF _ _ clock stuck]) (simp_all add: run_callback_def)
qed



subsection \<open>Version negotiation\<close>

lemma parse_version_36: "parse_version ''36.0'' = Some ((36, 0, 0), (1, 0, 0))"
  by (simp add: parse_version_def parse_prerelease_def is_digit_def int_of_digits_def Let_def)

lemma parse_version_35: "parse_version ''35.0'' = Some ((35, 0, 0), (1, 0, 0))"
  by (simp add: parse_version_def parse_prerelease_def is_digit_def int_of_digits_def Let_def)

text \<open>
  Claim C3. The claim, like the docstring of \<open>get_supported_versions_list\<close> (``Return
  non-deprecated server API versions''), has the deprecated entries filtered out before
  the highest common version is chosen. The source asks \<open>hasattr(version, 'deprecated')\<close>,
  which looks for a child element, while the server marks an entry by the XML attribute
  \<open>deprecated\<close>; an entry without such a child is kept whatever the attribute says.
  For a server that advertises 36.0 as deprecated and 35.0 as not, the negotiation
  settles on 36.0.
\<close>

theorem negotiate_keeps_deprecated:
  "negotiate_api_version
     (versions_answer [version_info ''true'' ''36.0'', version_info ''false'' ''35.0'']) None
   = Inr ''36.0''"
proof -
  have act: "active_loop [version_info ''true'' ''36.0'', version_info ''false'' ''35.0''] []
      = Inr [''36.0'', ''35.0'']"
    by (simp add: version_info_def hasattr_def lookup_child_def findall_def get_def)
  have srt: "sort_versions [''36.0'', ''35.0''] = Inr [''35.0'', ''36.0'']"
    by (simp add: sort_versions_def parse_version_36 parse_version_35)
  have lst: "get_supported_versions_list
     (versions_answer [version_info ''true'' ''36.0'', version_info ''false'' ''35.0''])
     = Inr [''35.0'', ''36.0'']"
    using act srt
    by (simp add: get_supported_versions_list_def versions_answer_def findall_def version_info_def)
  show ?thesis
    by (simp add: negotiate_api_version_def lst truthy_def API_CURRENT_VERSIONS_def)
qed

end
